theory Spec2Isabelle
  imports
    Complex_Main
    "HOL-Library.Word"
    "HOL-Library.Sublist"
    "HOL-Library.Char_ord"
    "HOL-Library.List_Lexorder"
begin

section \<open>Python values used by the streaming service\<close>

text \<open>
  The service is Python. Integers are unbounded (\<open>int\<close>), strings are character lists,
  byte strings are lists of 8-bit words, and a raised exception is the \<open>Inl\<close> branch of a
  sum. Operations that touch storage take the storage and return the storage they leave
  behind, also when they raise: a write that happened before the exception stays.
\<close>

type_synonym bytes = "8 word list"

datatype upload_cause =
    PermissionDenied
  | ChunkIndexExceeds
  | TotalChunksMismatch
  | ZeroDivision
  | ChunksMissing
  | CombineFailed

datatype error =
    VideoNotFoundError
  | UploadError upload_cause
  | StorageError string
  | ValueError
  | VideoProcessingError
  | HTTPError500

text \<open>\<open>str(i)\<close> for an integer: decimal digits, a leading minus sign for negatives.\<close>

definition digit_char :: "nat \<Rightarrow> char" where
  "digit_char d = ''0123456789'' ! d"

function str_nat :: "nat \<Rightarrow> string" where
  "str_nat n = (if n < 10 then [digit_char n] else str_nat (n div 10) @ [digit_char (n mod 10)])"
  by pat_completeness auto
termination
  by (relation "measure id") auto

declare str_nat.simps [simp del]

definition str_int :: "int \<Rightarrow> string" where
  "str_int i = (if i < 0 then CHR ''-'' # str_nat (nat (- i)) else str_nat (nat i))"

text \<open>Truthiness of an optional string: \<open>None\<close> and the empty string are falsy.\<close>

definition truthy :: "string option \<Rightarrow> bool" where
  "truthy u = (case u of None \<Rightarrow> False | Some s \<Rightarrow> s \<noteq> [])"

text \<open>\<open>os.path.basename\<close>: what follows the last slash.\<close>

definition basename :: "string \<Rightarrow> string" where
  "basename p = rev (takeWhile (\<lambda>c. c \<noteq> CHR ''/'') (rev p))"

text \<open>\<open>"\n".join(lines)\<close>.\<close>

fun join_lines :: "string list \<Rightarrow> string" where
  "join_lines [] = []"
| "join_lines [l] = l"
| "join_lines (l # ls) = l @ CHR 0x0A # join_lines ls"

section \<open>Storage\<close>

text \<open>
  The metadata document of a video (a JSON object in the source). The fields are those the
  modelled operations read or write; \<open>output_path\<close>, \<open>error_msg\<close> (key \<open>error\<close>),
  \<open>stalled_at\<close>, \<open>cleanup_performed\<close> and \<open>cleaned_at\<close> are keys that are absent until an
  operation sets them. \<open>upload_progress\<close> is the exact quotient; the rounding of the
  source's float is not modelled and no theorem below reads the field.
\<close>

record metadata =
  vid :: string
  filename :: string
  status :: string
  created_at :: string
  updated_at :: string
  owner_id :: "string option"
  company_id :: "string option"
  upload_progress :: rat
  chunks_received :: int
  total_chunks :: int
  output_path :: "string option"
  error_msg :: "string option"
  stalled_at :: "string option"
  cleanup_performed :: bool
  cleaned_at :: "string option"
  allow_cleanup :: bool

text \<open>
  Both backends keep raw files, processed files and metadata documents. Only regular
  files are modelled: a directory exists when a file lies under it.
\<close>

record storage =
  raw_dir :: "string \<rightharpoonup> bytes"
  processed_dir :: "string \<rightharpoonup> bytes"
  metadata_dir :: "string \<rightharpoonup> metadata"

definition empty_storage :: storage where
  "empty_storage = \<lparr>raw_dir = Map.empty, processed_dir = Map.empty, metadata_dir = Map.empty\<rparr>"

text \<open>\<open>save_file\<close>, \<open>get_file\<close>: the base directory (bucket) is chosen from the path.\<close>

definition routes_to_processed :: "string \<Rightarrow> bool" where
  "routes_to_processed path \<longleftrightarrow> prefix ''videos/'' path \<and> sublist ''/processed/'' path"

definition save_file :: "storage \<Rightarrow> string \<Rightarrow> bytes \<Rightarrow> storage" where
  "save_file s path content =
     (if routes_to_processed path
      then s\<lparr>processed_dir := (processed_dir s)(path \<mapsto> content)\<rparr>
      else s\<lparr>raw_dir := (raw_dir s)(path \<mapsto> content)\<rparr>)"

definition get_file :: "storage \<Rightarrow> string \<Rightarrow> error + bytes" where
  "get_file s path =
     (case (if routes_to_processed path then processed_dir s path else raw_dir s path) of
        None \<Rightarrow> Inl (StorageError ''get_file'')
      | Some content \<Rightarrow> Inr content)"

definition save_metadata :: "storage \<Rightarrow> string \<Rightarrow> metadata \<Rightarrow> storage" where
  "save_metadata s video_id m = s\<lparr>metadata_dir := (metadata_dir s)(video_id \<mapsto> m)\<rparr>"

definition get_video_metadata :: "storage \<Rightarrow> string \<Rightarrow> error + metadata" where
  "get_video_metadata s video_id =
     (case metadata_dir s video_id of
        None \<Rightarrow> Inl VideoNotFoundError
      | Some m \<Rightarrow> Inr m)"

definition chunk_path :: "string \<Rightarrow> int \<Rightarrow> string" where
  "chunk_path video_id i = ''videos/'' @ video_id @ ''/chunks/chunk_'' @ str_int i"

section \<open>StorageService: initialize, upload a chunk, finalize\<close>

text \<open>
  \<open>initialize_upload\<close>: the generated UUID and the clock are parameters. The directories
  it creates are empty and leave the file maps as they are.
\<close>

definition initialize_upload ::
  "storage \<Rightarrow> string \<Rightarrow> string \<Rightarrow> string option \<Rightarrow> string option \<Rightarrow> string \<Rightarrow> storage" where
  "initialize_upload s video_id fname user_id comp_id now =
     save_metadata s video_id
       \<lparr>vid = video_id, filename = fname, status = ''pending'',
        created_at = now, updated_at = now,
        owner_id = user_id, company_id = comp_id,
        upload_progress = 0, chunks_received = 0, total_chunks = 0,
        output_path = None, error_msg = None, stalled_at = None,
        cleanup_performed = False, cleaned_at = None, allow_cleanup = False\<rparr>"

record upload_result =
  res_video_id :: string
  res_chunk_index :: int
  res_total_chunks :: int
  res_progress :: rat

text \<open>
  \<open>StorageService.upload_chunk\<close>. The owner is checked only when a caller id is given.
  The chunk is written before the metadata is updated, and the counter is incremented
  on every accepted call. The quotient \<open>chunks_received / total_chunks\<close> raises when
  \<open>total_chunks\<close> is zero, which the index check lets through for a negative index; the
  chunk is written by then and the metadata is not saved.
\<close>

definition upload_chunk ::
  "storage \<Rightarrow> string \<Rightarrow> int \<Rightarrow> int \<Rightarrow> bytes \<Rightarrow> string option \<Rightarrow> string
     \<Rightarrow> (error + upload_result) \<times> storage" where
  "upload_chunk s video_id chunk_index total_arg chunk_data user_id now =
     (case get_video_metadata s video_id of
        Inl e \<Rightarrow> (Inl e, s)
      | Inr m \<Rightarrow>
          if truthy user_id \<and> owner_id m \<noteq> user_id
          then (Inl (UploadError PermissionDenied), s)
          else
            let m1 = (if total_chunks m = 0 then m\<lparr>total_chunks := total_arg\<rparr> else m) in
            if chunk_index \<ge> total_arg then (Inl (UploadError ChunkIndexExceeds), s)
            else if total_chunks m1 \<noteq> total_arg then (Inl (UploadError TotalChunksMismatch), s)
            else
              let s1 = save_file s (chunk_path video_id chunk_index) chunk_data;
                  m2 = m1\<lparr>chunks_received := chunks_received m1 + 1\<rparr>
              in
              if total_arg = 0 then (Inl (UploadError ZeroDivision), s1)
              else
                let m3 = m2\<lparr>upload_progress := of_int (chunks_received m2) / of_int total_arg * 100,
                            updated_at := now\<rparr>
                in (Inr \<lparr>res_video_id = video_id, res_chunk_index = chunk_index,
                         res_total_chunks = total_arg, res_progress = upload_progress m3\<rparr>,
                    save_metadata s1 video_id m3))"

text \<open>A client session: a list of calls for one video, each run on the storage the
  previous one left.\<close>

record chunk_call =
  call_index :: int
  call_total :: int
  call_data :: bytes
  call_user :: "string option"
  call_now :: string

fun upload_sequence ::
  "storage \<Rightarrow> string \<Rightarrow> chunk_call list \<Rightarrow> (error + upload_result) list \<times> storage" where
  "upload_sequence s video_id [] = ([], s)"
| "upload_sequence s video_id (c # cs) =
     (case upload_chunk s video_id (call_index c) (call_total c) (call_data c) (call_user c) (call_now c) of
        (r, s1) \<Rightarrow> (case upload_sequence s1 video_id cs of (rs, s2) \<Rightarrow> (r # rs, s2)))"

definition accepted :: "(error + upload_result) list \<Rightarrow> nat" where
  "accepted rs = length (filter (\<lambda>r. \<not> isl r) rs)"

text \<open>
  \<open>LocalService.combine_chunks\<close>. The output file is opened for writing, which creates
  or empties it, before the first chunk is looked at; the chunks \<open>0 .. total_chunks - 1\<close>
  are then appended one by one, and a missing chunk raises with the output left as far
  as it was written. Every exception leaves as \<open>StorageError\<close>.
\<close>

fun local_append_chunks ::
  "(string \<rightharpoonup> bytes) \<Rightarrow> string \<Rightarrow> string \<Rightarrow> nat list \<Rightarrow> error option \<times> (string \<rightharpoonup> bytes)" where
  "local_append_chunks fs video_id out [] = (None, fs)"
| "local_append_chunks fs video_id out (i # rest) =
     (case fs (chunk_path video_id (int i)) of
        None \<Rightarrow> (Some (StorageError ''combine_chunks''), fs)
      | Some chunk \<Rightarrow>
          local_append_chunks
            (fs(out \<mapsto> (case fs out of None \<Rightarrow> chunk | Some written \<Rightarrow> written @ chunk)))
            video_id out rest)"

definition local_combine_chunks ::
  "storage \<Rightarrow> string \<Rightarrow> int \<Rightarrow> string \<Rightarrow> (error + unit) \<times> storage" where
  "local_combine_chunks s video_id total_arg out =
     (case local_append_chunks ((raw_dir s)(out \<mapsto> [])) video_id out [0..<nat total_arg] of
        (None, fs) \<Rightarrow> (Inr (), s\<lparr>raw_dir := fs\<rparr>)
      | (Some e, fs) \<Rightarrow> (Inl (StorageError ''combine_chunks''), s\<lparr>raw_dir := fs\<rparr>))"

text \<open>
  \<open>GCSService.combine_chunks\<close>. The chunk blobs are collected first, each after an
  existence check, and only then handed to the client library's \<open>compose\<close>, which is a
  parameter here: it gets the bucket, the chunk names in order and the output name.
\<close>

fun gcs_chunk_blobs :: "(string \<rightharpoonup> bytes) \<Rightarrow> string \<Rightarrow> nat list \<Rightarrow> error + string list" where
  "gcs_chunk_blobs bucket video_id [] = Inr []"
| "gcs_chunk_blobs bucket video_id (i # rest) =
     (case bucket (chunk_path video_id (int i)) of
        None \<Rightarrow> Inl (StorageError ''combine_chunks'')
      | Some _ \<Rightarrow>
          (case gcs_chunk_blobs bucket video_id rest of
             Inl e \<Rightarrow> Inl e
           | Inr blobs \<Rightarrow> Inr (chunk_path video_id (int i) # blobs)))"

definition gcs_combine_chunks ::
  "((string \<rightharpoonup> bytes) \<Rightarrow> string list \<Rightarrow> string \<Rightarrow> (error + unit) \<times> (string \<rightharpoonup> bytes))
     \<Rightarrow> storage \<Rightarrow> string \<Rightarrow> int \<Rightarrow> string \<Rightarrow> (error + unit) \<times> storage" where
  "gcs_combine_chunks compose s video_id total_arg out =
     (case gcs_chunk_blobs (raw_dir s) video_id [0..<nat total_arg] of
        Inl e \<Rightarrow> (Inl (StorageError ''combine_chunks''), s)
      | Inr blobs \<Rightarrow>
          (case compose (raw_dir s) blobs out of
             (Inl e, bucket) \<Rightarrow> (Inl (StorageError ''combine_chunks''), s\<lparr>raw_dir := bucket\<rparr>)
           | (Inr u, bucket) \<Rightarrow> (Inr (), s\<lparr>raw_dir := bucket\<rparr>)))"

text \<open>
  \<open>StorageService.finalize_upload\<close>, with the backend's \<open>combine_chunks\<close> as a parameter.
  Nothing in the service calls it: it runs only when a client of the class does.
\<close>

record finalize_result =
  fin_video_id :: string
  fin_status :: string
  fin_output_path :: string

definition composed_path :: "string \<Rightarrow> string \<Rightarrow> string" where
  "composed_path video_id fname = ''videos/'' @ video_id @ ''/'' @ basename fname"

definition finalize_upload ::
  "(storage \<Rightarrow> string \<Rightarrow> int \<Rightarrow> string \<Rightarrow> (error + unit) \<times> storage)
     \<Rightarrow> storage \<Rightarrow> string \<Rightarrow> string option \<Rightarrow> string \<Rightarrow> (error + finalize_result) \<times> storage" where
  "finalize_upload combine_chunks s video_id user_id now =
     (case get_video_metadata s video_id of
        Inl e \<Rightarrow> (Inl e, s)
      | Inr m \<Rightarrow>
          if truthy user_id \<and> owner_id m \<noteq> user_id
          then (Inl (UploadError PermissionDenied), s)
          else if chunks_received m \<noteq> total_chunks m
          then (Inl (UploadError ChunksMissing), s)
          else
            let out = composed_path video_id (filename m) in
            (case combine_chunks s video_id (total_chunks m) out of
               (Inl e, s1) \<Rightarrow> (Inl (UploadError CombineFailed), s1)
             | (Inr u, s1) \<Rightarrow>
                 (Inr \<lparr>fin_video_id = video_id, fin_status = ''uploaded'', fin_output_path = out\<rparr>,
                  save_metadata s1 video_id
                    (m\<lparr>status := ''uploaded'', output_path := Some out, updated_at := now\<rparr>))))"

text \<open>
  The HTTP endpoint \<open>POST /chunk\<close>: it calls \<open>StorageService.upload_chunk\<close> with the
  authenticated user's id and schedules \<open>process_video\<close> as a background task when the
  index of this chunk is \<open>total_chunks - 1\<close>. The flag in the result says whether the task
  was scheduled. Every exception becomes HTTP 500.
\<close>

definition upload_chunk_endpoint ::
  "storage \<Rightarrow> string \<Rightarrow> int \<Rightarrow> int \<Rightarrow> bytes \<Rightarrow> string option \<Rightarrow> string
     \<Rightarrow> (error + upload_result \<times> bool) \<times> storage" where
  "upload_chunk_endpoint s video_id chunk_index total_arg chunk_data user_id now =
     (case upload_chunk s video_id chunk_index total_arg chunk_data user_id now of
        (Inl e, s1) \<Rightarrow> (Inl HTTPError500, s1)
      | (Inr result, s1) \<Rightarrow> (Inr (result, chunk_index = total_arg - 1), s1))"

subsection \<open>A sample upload\<close>

definition sample_storage :: storage where
  "sample_storage =
     initialize_upload empty_storage ''v1'' ''clips/foo.mp4'' (Some ''alice'') (Some ''acme'')
       ''2025-01-01T00:00:00''"

definition sample_call :: "int \<Rightarrow> int \<Rightarrow> string option \<Rightarrow> chunk_call" where
  "sample_call i n u =
     \<lparr>call_index = i, call_total = n, call_data = [1, 2, 3], call_user = u,
      call_now = ''2025-01-01T00:00:05''\<rparr>"

definition sample_chunks :: storage where
  "sample_chunks =
     empty_storage\<lparr>raw_dir := [chunk_path ''v1'' 0 \<mapsto> [1, 2], chunk_path ''v1'' 1 \<mapsto> [3]]\<rparr>"

definition sample_missing_chunk :: storage where
  "sample_missing_chunk = empty_storage\<lparr>raw_dir := [chunk_path ''v1'' 0 \<mapsto> [1, 2]]\<rparr>"


section \<open>ManifestGenerator\<close>

text \<open>
  Durations are Python numbers (floats from the probe, or the configured integer). Each
  finite float is a rational, and \<open>math.ceil\<close>, \<open>max\<close> and the fixed-point formats
  \<open>.6f\<close> and \<open>.3f\<close> work on that exact value, rounding half to even; so durations are
  \<open>rat\<close>. The values \<open>nan\<close> and \<open>inf\<close> and the sign of a negative zero have no counterpart.
\<close>

definition round_half_even :: "rat \<Rightarrow> int" where
  "round_half_even x =
     (let f = \<lfloor>x\<rfloor>; d = x - of_int f
      in if d < 1 / 2 then f else if 1 / 2 < d then f + 1 else if even f then f else f + 1)"

definition format_fixed :: "nat \<Rightarrow> rat \<Rightarrow> string" where
  "format_fixed k x =
     (let q = nat (round_half_even (\<bar>x\<bar> * 10 ^ k));
          digits = str_nat (q mod 10 ^ k)
      in (if x < 0 then ''-'' else '''') @ str_nat (q div 10 ^ k) @ ''.''
           @ replicate (k - length digits) (CHR ''0'') @ digits)"

text \<open>\<open>max\<close> of a sequence: the first largest element, \<open>ValueError\<close> when there is none.\<close>

fun py_max :: "rat list \<Rightarrow> error + rat" where
  "py_max [] = Inl ValueError"
| "py_max (x # xs) = Inr (foldl (\<lambda>m y. if m < y then y else m) x xs)"

record variant =
  bandwidth :: int
  resolution :: string
  name :: string

record segment =
  seg_filename :: string
  seg_duration :: rat
  seg_index :: int

text \<open>\<open>generate_hls_master_playlist\<close>: the header, then two lines per variant in the
  order of the argument.\<close>

definition hls_master_lines :: "variant list \<Rightarrow> string list" where
  "hls_master_lines variant_playlists =
     foldl (\<lambda>lines v.
              lines @ [''#EXT-X-STREAM-INF:BANDWIDTH='' @ str_int (bandwidth v)
                         @ '',RESOLUTION='' @ resolution v,
                       name v @ ''.m3u8''])
       [''#EXTM3U'', ''#EXT-X-VERSION:3''] variant_playlists"

definition generate_hls_master_playlist :: "variant list \<Rightarrow> string" where
  "generate_hls_master_playlist variant_playlists = join_lines (hls_master_lines variant_playlists)"

text \<open>\<open>generate_hls_variant_playlist\<close> and \<open>generate_hls_live_playlist\<close>.\<close>

definition hls_media_lines :: "string list \<Rightarrow> segment list \<Rightarrow> string list" where
  "hls_media_lines header segments =
     foldl (\<lambda>lines s.
              lines @ [''#EXTINF:'' @ format_fixed 6 (seg_duration s) @ '','', seg_filename s])
       header segments"

definition generate_hls_variant_playlist :: "segment list \<Rightarrow> error + string" where
  "generate_hls_variant_playlist segments =
     (case py_max (map seg_duration segments) of
        Inl e \<Rightarrow> Inl e
      | Inr max_duration \<Rightarrow>
          let target_duration = \<lceil>max_duration\<rceil>;
              lines = hls_media_lines
                        [''#EXTM3U'', ''#EXT-X-VERSION:3'',
                         ''#EXT-X-TARGETDURATION:'' @ str_int target_duration,
                         ''#EXT-X-MEDIA-SEQUENCE:0''] segments
          in Inr (join_lines (lines @ [''#EXT-X-ENDLIST''])))"

definition generate_hls_live_playlist :: "segment list \<Rightarrow> int \<Rightarrow> error + string" where
  "generate_hls_live_playlist segments sequence_no =
     (case py_max (map seg_duration segments) of
        Inl e \<Rightarrow> Inl e
      | Inr max_duration \<Rightarrow>
          let target_duration = \<lceil>max_duration\<rceil>;
              lines = hls_media_lines
                        [''#EXTM3U'', ''#EXT-X-VERSION:3'',
                         ''#EXT-X-TARGETDURATION:'' @ str_int target_duration,
                         ''#EXT-X-MEDIA-SEQUENCE:'' @ str_int sequence_no] segments
          in Inr (join_lines lines))"

text \<open>
  \<open>generate_dash_mpd\<close> builds an element tree and hands it to the XML library for
  printing. The tree is the result here; attributes and children are in the order in
  which they are set and appended.
\<close>

datatype xml = Element string "(string \<times> string) list" "xml list"

record dash_segment =
  dseg_index :: int
  dseg_start :: int
  dseg_duration :: int

record adaptation =
  as_id :: string
  as_mime_type :: string
  as_codecs :: string
  as_width :: int
  as_height :: int
  as_bandwidth :: int
  as_segment_timeline :: "dash_segment list option"

definition segment_timeline_element :: "dash_segment list \<Rightarrow> xml" where
  "segment_timeline_element timeline =
     Element ''SegmentTimeline'' []
       (foldl (\<lambda>children s.
                 children @ [Element ''S'' [(''t'', str_int (dseg_start s)),
                                           (''d'', str_int (dseg_duration s))] []])
          [] timeline)"

definition adaptation_set_element :: "int \<Rightarrow> adaptation \<Rightarrow> xml" where
  "adaptation_set_element dash_segment_duration a =
     Element ''AdaptationSet''
       [(''id'', as_id a), (''mimeType'', as_mime_type a), (''codecs'', as_codecs a),
        (''startWithSAP'', ''1'')]
       [Element ''Representation''
          [(''id'', as_id a), (''width'', str_int (as_width a)),
           (''height'', str_int (as_height a)), (''bandwidth'', str_int (as_bandwidth a))]
          [case as_segment_timeline a of
             Some timeline \<Rightarrow>
               Element ''SegmentTemplate''
                 [(''initialization'', as_id a @ ''/init.mp4''),
                  (''media'', as_id a @ ''/segment-$Number$.m4s''),
                  (''timescale'', ''1000''), (''startNumber'', ''1'')]
                 [segment_timeline_element timeline]
           | None \<Rightarrow>
               Element ''SegmentTemplate''
                 [(''initialization'', as_id a @ ''/init.mp4''),
                  (''media'', as_id a @ ''/segment-$Number$.m4s''),
                  (''timescale'', ''1000''), (''startNumber'', ''1''),
                  (''duration'', str_int (dash_segment_duration * 1000))]
                 []]]"

definition generate_dash_mpd :: "int \<Rightarrow> adaptation list \<Rightarrow> rat \<Rightarrow> xml" where
  "generate_dash_mpd dash_segment_duration adaptation_sets duration =
     Element ''MPD''
       [(''xmlns'', ''urn:mpeg:dash:schema:mpd:2011''),
        (''profiles'', ''urn:mpeg:dash:profile:isoff-live:2011''),
        (''type'', ''static''), (''minBufferTime'', ''PT2S''),
        (''mediaPresentationDuration'', ''PT'' @ format_fixed 3 duration @ ''S'')]
       [Element ''Period'' [(''id'', ''1''), (''start'', ''PT0S'')]
          (foldl (\<lambda>children a. children @ [adaptation_set_element dash_segment_duration a])
             [] adaptation_sets)]"

subsection \<open>Reading a manifest back\<close>

text \<open>
  What a player sees: the \<open>BANDWIDTH\<close> values of the master playlist's
  \<open>#EXT-X-STREAM-INF\<close> lines, top to bottom, and the \<open>bandwidth\<close> attributes of the
  Representations and the \<open>t\<close> attributes of the \<open>S\<close> elements of an MPD, in document
  order.
\<close>

definition is_digit :: "char \<Rightarrow> bool" where
  "is_digit c \<longleftrightarrow> c \<in> set ''0123456789''"

definition digit_of :: "char \<Rightarrow> nat" where
  "digit_of c = of_char c - 48"

definition read_nat :: "string \<Rightarrow> nat" where
  "read_nat s = foldl (\<lambda>n c. 10 * n + digit_of c) 0 (takeWhile is_digit s)"

definition read_int :: "string \<Rightarrow> int" where
  "read_int s = (case s of
                   [] \<Rightarrow> 0
                 | c # rest \<Rightarrow> if c = CHR ''-'' then - int (read_nat rest) else int (read_nat s))"

fun stream_inf_lines :: "string list \<Rightarrow> string list" where
  "stream_inf_lines (l # uri # rest) = l # stream_inf_lines rest"
| "stream_inf_lines _ = []"

definition emitted_bandwidths :: "string list \<Rightarrow> int list" where
  "emitted_bandwidths lines =
     map (\<lambda>l. read_int (drop (length ''#EXT-X-STREAM-INF:BANDWIDTH='') l))
       (stream_inf_lines (drop 2 lines))"

fun attribute :: "string \<Rightarrow> xml \<Rightarrow> string option" where
  "attribute k (Element tag attrs children) = map_of attrs k"

fun children_of :: "xml \<Rightarrow> xml list" where
  "children_of (Element tag attrs children) = children"

definition mpd_adaptation_sets :: "xml \<Rightarrow> xml list" where
  "mpd_adaptation_sets mpd = concat (map children_of (children_of mpd))"

definition mpd_bandwidths :: "xml \<Rightarrow> int list" where
  "mpd_bandwidths mpd =
     map (\<lambda>r. case attribute ''bandwidth'' r of None \<Rightarrow> 0 | Some b \<Rightarrow> read_int b)
       (concat (map children_of (mpd_adaptation_sets mpd)))"


(*DEFS*)

section \<open>Properties of the chunk upload\<close>

lemma upload_chunk_accepted:
  assumes "metadata_dir s video_id = Some m"
    and "upload_chunk s video_id i n d u now = (Inr r, s')"
  shows "\<exists>m'. metadata_dir s' video_id = Some m' \<and> chunks_received m' = chunks_received m + 1"
    and "get_file s' (chunk_path video_id i) = Inr d"
  using assms
  by (auto simp: upload_chunk_def get_video_metadata_def Let_def save_metadata_def
      save_file_def get_file_def split: if_splits)

lemma upload_chunk_rejected:
  assumes "upload_chunk s video_id i n d u now = (Inl e, s')"
  shows "metadata_dir s' = metadata_dir s"
  using assms
  by (auto simp: upload_chunk_def get_video_metadata_def Let_def save_metadata_def
      save_file_def split: if_splits sum.splits option.splits)

lemma upload_sequence_counts:
  assumes "metadata_dir s video_id = Some m"
    and "upload_sequence s video_id cs = (rs, s')"
  shows "\<exists>m'. metadata_dir s' video_id = Some m' \<and>
           chunks_received m' = chunks_received m + int (accepted rs)"
  using assms
proof (induction cs arbitrary: s m rs s')
  case Nil
  then show ?case by (simp add: accepted_def)
next
  case (Cons c cs)
  obtain r s1 where step:
    "upload_chunk s video_id (call_index c) (call_total c) (call_data c) (call_user c) (call_now c)
       = (r, s1)"
    by (cases "upload_chunk s video_id (call_index c) (call_total c) (call_data c)
                 (call_user c) (call_now c)")
  obtain rs1 s2 where rest: "upload_sequence s1 video_id cs = (rs1, s2)"
    by (cases "upload_sequence s1 video_id cs")
  from Cons.prems(2) step rest have eqs: "rs = r # rs1" "s' = s2" by auto
  show ?case
  proof (cases r)
    case (Inl e)
    with step have "metadata_dir s1 = metadata_dir s" by (simp add: upload_chunk_rejected)
    with Cons.prems(1) have "metadata_dir s1 video_id = Some m" by simp
    from Cons.IH[OF this rest] Inl eqs show ?thesis by (simp add: accepted_def)
  next
    case (Inr u)
    with step upload_chunk_accepted(1)[OF Cons.prems(1)] obtain m1 where
      m1: "metadata_dir s1 video_id = Some m1" "chunks_received m1 = chunks_received m + 1"
      by blast
    from Cons.IH[OF m1(1) rest] m1(2) Inr eqs show ?thesis by (auto simp: accepted_def)
  qed
qed

text \<open>
  C1, as the code has it. Every accepted call of \<open>upload_chunk\<close> stores the chunk under
  its index, replacing what was there, and adds one to \<open>chunks_received\<close>, whether or not
  the index was uploaded before. After a sequence of calls the counter has grown by the
  number of accepted calls.
\<close>

theorem upload_chunk_counts_every_accepted_call:
  assumes "metadata_dir s video_id = Some m"
  shows "(upload_chunk s video_id i n d u now = (Inr r, s1) \<longrightarrow>
            get_file s1 (chunk_path video_id i) = Inr d \<and>
            (\<exists>m1. metadata_dir s1 video_id = Some m1 \<and>
                  chunks_received m1 = chunks_received m + 1))
       \<and> (upload_sequence s video_id cs = (rs, s2) \<longrightarrow>
            (\<exists>m2. metadata_dir s2 video_id = Some m2 \<and>
                  chunks_received m2 = chunks_received m + int (accepted rs)))"
  using upload_chunk_accepted[OF assms] upload_sequence_counts[OF assms] by blast

theorem upload_chunk_counts_every_accepted_call_witness:
  "get_file (snd (upload_chunk sample_storage ''v1'' 0 2 [7] (Some ''alice'') ''t1''))
       (chunk_path ''v1'' 0) = Inr [7]
   \<and> (\<exists>m1. metadata_dir (snd (upload_chunk sample_storage ''v1'' 0 2 [7] (Some ''alice'') ''t1''))
              ''v1'' = Some m1 \<and> chunks_received m1 = 1)"
proof -
  obtain m where m: "metadata_dir sample_storage ''v1'' = Some m" "chunks_received m = 0"
    by (simp add: sample_storage_def initialize_upload_def save_metadata_def)
  obtain r s1 where u: "upload_chunk sample_storage ''v1'' 0 2 [7] (Some ''alice'') ''t1'' = (Inr r, s1)"
    by (simp add: sample_storage_def initialize_upload_def save_metadata_def upload_chunk_def
        get_video_metadata_def truthy_def empty_storage_def Let_def)
  from upload_chunk_counts_every_accepted_call[OF m(1), of 0 2 "[7]" "Some ''alice''" "''t1''" r s1]
    u m(2) show ?thesis by simp
qed

text \<open>
  C1 as stated fails: the same index uploaded three times, of two chunks announced, is
  counted three times, so the counter is neither the number of distinct indices (one)
  nor bounded by \<open>total_chunks\<close> (two).
\<close>

theorem upload_chunk_double_counts:
  "chunks_received (the (metadata_dir (snd (upload_sequence sample_storage ''v1''
       [sample_call 0 2 (Some ''alice''), sample_call 0 2 (Some ''alice''),
        sample_call 0 2 (Some ''alice'')])) ''v1'')) = 3
   \<and> total_chunks (the (metadata_dir (snd (upload_sequence sample_storage ''v1''
       [sample_call 0 2 (Some ''alice''), sample_call 0 2 (Some ''alice''),
        sample_call 0 2 (Some ''alice'')])) ''v1'')) = 2
   \<and> card (call_index ` set [sample_call 0 2 (Some ''alice''), sample_call 0 2 (Some ''alice''),
        sample_call 0 2 (Some ''alice'')]) = 1"
  by (simp add: sample_storage_def sample_call_def initialize_upload_def empty_storage_def
      upload_chunk_def get_video_metadata_def save_metadata_def save_file_def truthy_def Let_def)

text \<open>
  C5, as the code has it. A caller id that is given (not empty) and differs from the
  record's owner is rejected, and the storage is left as it was: no chunk is written and
  no metadata field changes.
\<close>

theorem upload_chunk_rejects_other_user:
  assumes "metadata_dir s video_id = Some m"
    and "u \<noteq> []"
    and "owner_id m \<noteq> Some u"
  shows "upload_chunk s video_id i n d (Some u) now = (Inl (UploadError PermissionDenied), s)"
  using assms by (simp add: upload_chunk_def get_video_metadata_def truthy_def)

theorem upload_chunk_rejects_other_user_witness:
  "upload_chunk sample_storage ''v1'' 0 2 [7] (Some ''mallory'') ''t1''
     = (Inl (UploadError PermissionDenied), sample_storage)"
proof -
  obtain m where m: "metadata_dir sample_storage ''v1'' = Some m" "owner_id m = Some ''alice''"
    by (simp add: sample_storage_def initialize_upload_def save_metadata_def)
  have "''mallory'' \<noteq> []" by simp
  moreover have "owner_id m \<noteq> Some ''mallory''" using m(2) by simp
  ultimately show ?thesis
    using upload_chunk_rejects_other_user[OF m(1), of "''mallory''" 0 2 "[7]" "''t1''"] by simp
qed

text \<open>
  C5 as stated fails: with no caller id, or an empty one, the owner check is skipped and
  the chunk of a video owned by \<open>alice\<close> is stored.
\<close>

theorem upload_chunk_accepts_absent_user:
  "owner_id (the (metadata_dir sample_storage ''v1'')) = Some ''alice''
   \<and> \<not> isl (fst (upload_chunk sample_storage ''v1'' 0 2 [7] None ''t1''))
   \<and> raw_dir (snd (upload_chunk sample_storage ''v1'' 0 2 [7] None ''t1'')) (chunk_path ''v1'' 0)
       = Some [7]
   \<and> \<not> isl (fst (upload_chunk sample_storage ''v1'' 0 2 [7] (Some []) ''t1''))
   \<and> chunks_received (the (metadata_dir
        (snd (upload_chunk sample_storage ''v1'' 0 2 [7] (Some []) ''t1'')) ''v1'')) = 1"
  by code_simp

section \<open>Properties of chunk composition\<close>







text \<open>
  C3 on the cloud backend: a missing chunk is found before anything is composed, so the
  call fails and the storage is the one it started from, whatever \<open>compose\<close> does.
\<close>

lemma gcs_combine_chunks_missing:
  assumes "i < nat n" and "raw_dir s (chunk_path v (int i)) = None"
  shows "gcs_combine_chunks compose s v n out = (Inl (StorageError ''combine_chunks''), s)"
proof -
  have "i \<in> set js \<Longrightarrow> gcs_chunk_blobs (raw_dir s) v js = Inl (StorageError ''combine_chunks'')"
    for js
    using assms(2) by (induction js) (auto split: option.splits sum.splits)
  from this[of "[0..<nat n]"] assms(1) show ?thesis by (simp add: gcs_combine_chunks_def)
qed

text \<open>
  C3 on the local backend does not hold. With chunk 0 present and chunk 1 missing, the
  call fails with \<open>StorageError\<close>, but the output file, absent before, now exists and
  holds the bytes of chunk 0.
\<close>

theorem local_combine_chunks_leaves_partial_output:
  "raw_dir sample_missing_chunk ''videos/v1/foo.mp4'' = None
   \<and> raw_dir sample_missing_chunk (chunk_path ''v1'' 1) = None
   \<and> fst (local_combine_chunks sample_missing_chunk ''v1'' 2 ''videos/v1/foo.mp4'')
       = Inl (StorageError ''combine_chunks'')
   \<and> raw_dir (snd (local_combine_chunks sample_missing_chunk ''v1'' 2 ''videos/v1/foo.mp4''))
       ''videos/v1/foo.mp4'' = Some [1, 2]"
  by code_simp

text \<open>
  C2 does not hold on the code. The only chunk of a one-chunk upload makes
  \<open>chunks_received\<close> equal \<open>total_chunks\<close>, yet the record stays \<open>pending\<close>, has no
  \<open>output_path\<close>, and no composed file exists: \<open>upload_chunk\<close> does not finalize. The
  endpoint has scheduled processing all the same. And when chunk 1 of 2 arrives first,
  the endpoint schedules processing while chunk 0 is still missing.
\<close>

theorem upload_chunk_never_finalizes:
  "chunks_received (the (metadata_dir (snd (upload_chunk_endpoint sample_storage ''v1'' 0 1 [7]
       (Some ''alice'') ''t1'')) ''v1'')) = 1
   \<and> total_chunks (the (metadata_dir (snd (upload_chunk_endpoint sample_storage ''v1'' 0 1 [7]
       (Some ''alice'') ''t1'')) ''v1'')) = 1
   \<and> status (the (metadata_dir (snd (upload_chunk_endpoint sample_storage ''v1'' 0 1 [7]
       (Some ''alice'') ''t1'')) ''v1'')) = ''pending''
   \<and> output_path (the (metadata_dir (snd (upload_chunk_endpoint sample_storage ''v1'' 0 1 [7]
       (Some ''alice'') ''t1'')) ''v1'')) = None
   \<and> raw_dir (snd (upload_chunk_endpoint sample_storage ''v1'' 0 1 [7] (Some ''alice'') ''t1''))
       (composed_path ''v1'' ''clips/foo.mp4'') = None
   \<and> map_sum id snd (fst (upload_chunk_endpoint sample_storage ''v1'' 0 1 [7] (Some ''alice'') ''t1''))
       = Inr True
   \<and> map_sum id snd (fst (upload_chunk_endpoint sample_storage ''v1'' 1 2 [7] (Some ''alice'') ''t1''))
       = Inr True
   \<and> raw_dir (snd (upload_chunk_endpoint sample_storage ''v1'' 1 2 [7] (Some ''alice'') ''t1''))
       (chunk_path ''v1'' 0) = None"
  by code_simp

end
